theory Spec2Isabelle
  imports Complex_Main "HOL-Library.Multiset"
begin

section \<open>Floating-point values\<close>

text \<open>
  The price columns, the indicators and the scores of \<^verbatim>\<open>analysis.py\<close> are IEEE doubles.
  They are modelled as real numbers extended with the three special values: \<open>NaN\<close>
  (pandas' missing value) and the two infinities (what numpy returns for a division
  of a non-zero number by zero). Rounding, overflow of finite results and the sign of
  zero are not modelled: arithmetic on finite values is exact, and a zero divisor
  counts as \<open>+0\<close>.
\<close>

datatype float = NaN | NInf | Num real | PInf

fun isna :: "float \<Rightarrow> bool" where
  "isna NaN = True"
| "isna _ = False"

fun is_num :: "float \<Rightarrow> bool" where
  "is_num (Num _) = True"
| "is_num _ = False"

fun fneg :: "float \<Rightarrow> float" where
  "fneg NaN = NaN"
| "fneg NInf = PInf"
| "fneg PInf = NInf"
| "fneg (Num x) = Num (- x)"

fun fadd :: "float \<Rightarrow> float \<Rightarrow> float" where
  "fadd (Num x) (Num y) = Num (x + y)"
| "fadd NaN _ = NaN"
| "fadd _ NaN = NaN"
| "fadd PInf NInf = NaN"
| "fadd NInf PInf = NaN"
| "fadd PInf _ = PInf"
| "fadd _ PInf = PInf"
| "fadd NInf _ = NInf"
| "fadd _ NInf = NInf"

definition fsub :: "float \<Rightarrow> float \<Rightarrow> float" where
  "fsub a b = fadd a (fneg b)"

fun fmul :: "float \<Rightarrow> float \<Rightarrow> float" where
  "fmul (Num x) (Num y) = Num (x * y)"
| "fmul NaN _ = NaN"
| "fmul _ NaN = NaN"
| "fmul PInf (Num y) = (if y = 0 then NaN else if 0 < y then PInf else NInf)"
| "fmul NInf (Num y) = (if y = 0 then NaN else if 0 < y then NInf else PInf)"
| "fmul (Num x) PInf = (if x = 0 then NaN else if 0 < x then PInf else NInf)"
| "fmul (Num x) NInf = (if x = 0 then NaN else if 0 < x then NInf else PInf)"
| "fmul PInf PInf = PInf"
| "fmul NInf NInf = PInf"
| "fmul PInf NInf = NInf"
| "fmul NInf PInf = NInf"

fun fdiv :: "float \<Rightarrow> float \<Rightarrow> float" where
  "fdiv (Num x) (Num y) =
     (if y \<noteq> 0 then Num (x / y)
      else if 0 < x then PInf else if x < 0 then NInf else NaN)"
| "fdiv NaN _ = NaN"
| "fdiv _ NaN = NaN"
| "fdiv (Num x) PInf = Num 0"
| "fdiv (Num x) NInf = Num 0"
| "fdiv PInf (Num y) = (if 0 \<le> y then PInf else NInf)"
| "fdiv NInf (Num y) = (if 0 \<le> y then NInf else PInf)"
| "fdiv PInf PInf = NaN"
| "fdiv PInf NInf = NaN"
| "fdiv NInf PInf = NaN"
| "fdiv NInf NInf = NaN"

fun fabs :: "float \<Rightarrow> float" where
  "fabs NaN = NaN"
| "fabs (Num x) = Num \<bar>x\<bar>"
| "fabs _ = PInf"

text \<open>The comparison \<open>a < b\<close>; every comparison with \<open>NaN\<close> is false.\<close>

fun flt :: "float \<Rightarrow> float \<Rightarrow> bool" where
  "flt (Num x) (Num y) = (x < y)"
| "flt NaN _ = False"
| "flt _ NaN = False"
| "flt NInf NInf = False"
| "flt NInf _ = True"
| "flt PInf _ = False"
| "flt _ PInf = True"
| "flt _ NInf = False"

definition fmin :: "float \<Rightarrow> float \<Rightarrow> float" where
  "fmin a b = (if flt b a then b else a)"

definition fmax :: "float \<Rightarrow> float \<Rightarrow> float" where
  "fmax a b = (if flt a b then b else a)"

datatype error =
    ValueError | OverflowError | HTTPError | ProviderError | ParseError | SetupError

text \<open>
  \<^verbatim>\<open>math.log1p\<close>: defined above \<open>-1\<close>, raises \<^verbatim>\<open>ValueError\<close> at and below it.
\<close>

fun log1p :: "float \<Rightarrow> error + float" where
  "log1p NaN = Inr NaN"
| "log1p PInf = Inr PInf"
| "log1p NInf = Inl ValueError"
| "log1p (Num x) = (if - 1 < x then Inr (Num (ln (1 + x))) else Inl ValueError)"

section \<open>Column reductions of pandas\<close>

text \<open>The values of a column that are not missing (\<^verbatim>\<open>skipna=True\<close>, the default).\<close>

definition dropna :: "float list \<Rightarrow> float list" where
  "dropna xs = filter (\<lambda>x. \<not> isna x) xs"

text \<open>The finite values of a column, as real numbers.\<close>

fun nums :: "float list \<Rightarrow> real list" where
  "nums [] = []"
| "nums (Num x # xs) = x # nums xs"
| "nums (_ # xs) = nums xs"

definition fsum :: "float list \<Rightarrow> float" where
  "fsum xs = foldl fadd (Num 0) xs"

text \<open>\<^verbatim>\<open>Series.mean()\<close>: the mean of the values present, \<open>NaN\<close> when there is none.\<close>

definition series_mean :: "float list \<Rightarrow> float" where
  "series_mean xs =
     (let v = dropna xs in
      if v = [] then NaN else fdiv (fsum v) (Num (real (length v))))"

definition mean :: "real list \<Rightarrow> real" where
  "mean v = sum_list v / real (length v)"

text \<open>The sample variance (\<^verbatim>\<open>ddof=1\<close>, the default of pandas) of at least two values.\<close>

definition sample_var :: "real list \<Rightarrow> real" where
  "sample_var v = (\<Sum>x\<leftarrow>v. (x - mean v)\<^sup>2) / (real (length v) - 1)"

text \<open>
  \<^verbatim>\<open>Series.std()\<close>: the sample standard deviation of the values present; \<open>NaN\<close> with
  fewer than two of them, and \<open>NaN\<close> when one of them is infinite (the deviation of
  an infinite value from an infinite mean is \<open>NaN\<close>).
\<close>

definition series_std :: "float list \<Rightarrow> float" where
  "series_std xs =
     (let v = dropna xs in
      if length v \<le> 1 then NaN
      else if list_all is_num v then Num (sqrt (sample_var (nums v)))
      else NaN)"

text \<open>\<^verbatim>\<open>Series.min()\<close> and \<^verbatim>\<open>Series.max()\<close>, skipping missing values.\<close>

definition series_min :: "float list \<Rightarrow> float" where
  "series_min xs = (case dropna xs of [] \<Rightarrow> NaN | y # ys \<Rightarrow> foldl fmin y ys)"

definition series_max :: "float list \<Rightarrow> float" where
  "series_max xs = (case dropna xs of [] \<Rightarrow> NaN | y # ys \<Rightarrow> foldl fmax y ys)"

text \<open>
  The rows \<open>t - n + 1, \<dots>, t\<close> of a column: the window of \<^verbatim>\<open>rolling(n)\<close> at row \<open>t\<close>,
  shorter at the start of the column.
\<close>

definition window :: "nat \<Rightarrow> 'a list \<Rightarrow> nat \<Rightarrow> 'a list" where
  "window n xs t = drop (Suc t - n) (take (Suc t) xs)"

text \<open>
  \<^verbatim>\<open>rolling(n, min_periods=m).mean()\<close> and \<^verbatim>\<open>.std()\<close> at row \<open>t\<close>. A rolling window
  counts its finite values only (pandas turns infinities into missing values before a
  rolling aggregation); with fewer than \<open>m\<close> of them the result is \<open>NaN\<close>, and the
  standard deviation (\<^verbatim>\<open>ddof=1\<close>) is \<open>NaN\<close> unless there are at least two.
\<close>

definition rolling_mean :: "nat \<Rightarrow> nat \<Rightarrow> float list \<Rightarrow> nat \<Rightarrow> float" where
  "rolling_mean n m xs t =
     (let v = nums (window n xs t) in
      if m \<le> length v \<and> 0 < length v then Num (mean v) else NaN)"

definition rolling_std :: "nat \<Rightarrow> nat \<Rightarrow> float list \<Rightarrow> nat \<Rightarrow> float" where
  "rolling_std n m xs t =
     (let v = nums (window n xs t) in
      if m \<le> length v \<and> 1 < length v then Num (sqrt (sample_var v)) else NaN)"

text \<open>
  \<^verbatim>\<open>Series.pct_change()\<close>: \<open>x[t] / x[t-1] - 1\<close>, missing in the first row. Missing
  values are not forward-filled first (pandas 3; earlier releases fill by default,
  which gives the same column whenever no value is missing after the first present
  one, and also when every value is missing).
\<close>

definition pct_change :: "float list \<Rightarrow> float list" where
  "pct_change xs =
     (case xs of [] \<Rightarrow> []
      | _ # ys \<Rightarrow> NaN # map (\<lambda>(p, c). fsub (fdiv c p) (Num 1)) (zip xs ys))"

section \<open>Price series and indicators\<close>

text \<open>
  A frame of daily bars is the list of its rows, in frame order. The index is the
  date, counted in days. \<open>bar\<close> is a row of the frame returned by \<^verbatim>\<open>get_history\<close>,
  \<open>ibar\<close> a row after \<^verbatim>\<open>compute_indicators\<close>.
\<close>

record bar =
  date :: int
  opn :: float
  high :: float
  low :: float
  close :: float
  volume :: float

record ibar = bar +
  ret_1d :: float
  tr :: float
  atr :: float
  volatility_annual :: float

definition YEARS_HISTORY :: nat where "YEARS_HISTORY = 8"
definition HORIZONS_MONTHS :: "int list" where "HORIZONS_MONTHS = [6, 12, 18, 24, 48]"
definition MIN_AVG_VOLUME :: real where "MIN_AVG_VOLUME = 30000"
definition VOL_PENALTY :: real where "VOL_PENALTY = 0.5"
definition LOGVOL_WEIGHT :: real where "LOGVOL_WEIGHT = 0.005"

definition true_range :: "bar \<Rightarrow> float" where
  "true_range b = fabs (fsub (high b) (low b))"

definition compute_indicators :: "bar list \<Rightarrow> ibar list" where
  "compute_indicators df =
     (let rets = pct_change (map close df);
          trs = map true_range df
      in map (\<lambda>t. bar.extend (df ! t)
                 (ibar.fields (rets ! t) (trs ! t)
                    (rolling_mean 14 1 trs t)
                    (fmul (rolling_std 21 1 rets t) (Num (sqrt 252)))))
           [0..<length df])"

section \<open>Scoring one horizon\<close>

record hscore =
  sc_return :: float
  sc_volatility :: float
  sc_avg_vol :: float
  sc_score :: float

text \<open>\<^verbatim>\<open>df.index.max()\<close>, taken of a frame that has a row.\<close>

fun index_max :: "int list \<Rightarrow> int" where
  "index_max [] = 0"
| "index_max [d] = d"
| "index_max (d # ds) = max d (index_max ds)"

text \<open>The rows of \<^verbatim>\<open>df[df.index >= cutoff]\<close> for the horizon of \<open>months\<close> months.\<close>

definition recent_rows :: "ibar list \<Rightarrow> int \<Rightarrow> ibar list" where
  "recent_rows df months =
     (let end = index_max (map date df);
          lookback_days = months * 30;
          cutoff = end - lookback_days
      in filter (\<lambda>b. cutoff \<le> date b) df)"

text \<open>
  \<^verbatim>\<open>score_for_horizon(df, months)\<close>. The result \<open>Inr None\<close> is the \<^verbatim>\<open>None\<close> of the
  source ("insufficient"), \<open>Inl e\<close> an exception. \<^verbatim>\<open>Series.std()\<close> never returns
  \<^verbatim>\<open>None\<close>, so the test \<^verbatim>\<open>is not None\<close> always holds and the branch \<^verbatim>\<open>else 0.0\<close>
  is never taken. Both fetchers give every frame a volume column.
\<close>

definition score_for_horizon :: "ibar list option \<Rightarrow> int \<Rightarrow> error + hscore option" where
  "score_for_horizon dfo months =
     (case dfo of None \<Rightarrow> Inr None
      | Some df \<Rightarrow>
          if df = [] then Inr None
          else
            let recent = recent_rows df months in
            if recent = [] \<or> length recent < 10 then Inr None
            else
              let total_return = fsub (fdiv (close (last recent)) (close (hd recent))) (Num 1);
                  vol = fmul (series_std (map ret_1d recent)) (Num (sqrt 252));
                  avg_vol = series_mean (map volume recent)
              in if isna avg_vol \<or> flt avg_vol (Num MIN_AVG_VOLUME) then Inr None
                 else
                   (case log1p avg_vol of
                      Inl e \<Rightarrow> Inl e
                    | Inr l \<Rightarrow>
                        Inr (Some \<lparr>sc_return = total_return, sc_volatility = vol,
                                   sc_avg_vol = avg_vol,
                                   sc_score = fadd (fsub (fmul total_return (Num 1))
                                                      (fmul vol (Num VOL_PENALTY)))
                                                (fmul l (Num LOGVOL_WEIGHT))\<rparr>)))"

section \<open>External data sources\<close>

text \<open>
  What the two providers and the secret store answer is given by a \<open>world\<close>: the
  outcome of the \<open>n\<close>-th HTTP request to the primary provider, of the \<open>n\<close>-th history
  request to the fallback provider, and of \<^verbatim>\<open>get_secret("DHAN_TOKEN")\<close>. The \<open>state\<close>
  counts the requests made so far and records them, with the pauses, in a trace.

  A response body of the primary provider is classified by what lines 42 to 78 of
  \<^verbatim>\<open>fetch_dhan_candles\<close> make of it: \<open>JFalsy\<close> is a body that is false in a Python
  condition; \<open>JRows rows\<close> is a body of one of the recognised shapes, \<open>rows\<close> being the
  frame built from its array (columns renamed, indexed and sorted by date, absent
  columns \<open>NaN\<close>), with \<open>JRows []\<close> for an empty array or an unknown shape; \<open>JBad\<close> is
  a body on which the construction of the frame raises.
\<close>

datatype json = JFalsy | JRows "bar list" | JBad

datatype event = HttpGet string | Sleep nat | YfHistory string

record world =
  secret :: "error + string option"
  http :: "nat \<Rightarrow> string \<Rightarrow> error + json"
  yf :: "nat \<Rightarrow> string \<Rightarrow> error + bar list option"
  clock :: int

record state =
  http_calls :: nat
  yf_calls :: nat
  trace :: "event list"

definition state0 :: state where
  "state0 = \<lparr>http_calls = 0, yf_calls = 0, trace = []\<rparr>"

text \<open>
  One \<^verbatim>\<open>requests.get\<close> with \<^verbatim>\<open>raise_for_status\<close> and \<^verbatim>\<open>r.json()\<close>: the next answer of
  the world.
\<close>

definition http_get :: "world \<Rightarrow> string \<Rightarrow> state \<Rightarrow> (error + json) \<times> state" where
  "http_get w symbol s =
     (http w (http_calls s) symbol,
      s\<lparr>http_calls := Suc (http_calls s), trace := trace s @ [HttpGet symbol]\<rparr>)"

definition sleep :: "nat \<Rightarrow> state \<Rightarrow> state" where
  "sleep n s = s\<lparr>trace := trace s @ [Sleep n]\<rparr>"

text \<open>
  The loop \<^verbatim>\<open>for i in range(retries)\<close> of \<^verbatim>\<open>safe_get_json\<close>, by the number of
  iterations left; the last iteration (\<^verbatim>\<open>i == retries - 1\<close>) is the one with none left
  after it. A loop that runs out returns \<^verbatim>\<open>None\<close>.
\<close>

fun attempts :: "world \<Rightarrow> string \<Rightarrow> nat \<Rightarrow> state \<Rightarrow> (error + json option) \<times> state" where
  "attempts w symbol 0 s = (Inr None, s)"
| "attempts w symbol (Suc k) s =
     (case http_get w symbol s of
        (Inr j, s') \<Rightarrow> (Inr (Some j), s')
      | (Inl e, s') \<Rightarrow>
          if k = 0 then (Inl e, s') else attempts w symbol k (sleep 1 s'))"

definition safe_get_json ::
  "world \<Rightarrow> string \<Rightarrow> nat \<Rightarrow> state \<Rightarrow> (error + json option) \<times> state" where
  "safe_get_json w symbol retries s = attempts w symbol retries s"

definition default_retries :: nat where "default_retries = 2"

definition fetch_dhan_candles ::
  "world \<Rightarrow> string \<Rightarrow> state \<Rightarrow> (error + bar list option) \<times> state" where
  "fetch_dhan_candles w symbol s =
     (case safe_get_json w symbol default_retries s of
        (Inl e, s') \<Rightarrow> (Inl e, s')
      | (Inr None, s') \<Rightarrow> (Inr None, s')
      | (Inr (Some JFalsy), s') \<Rightarrow> (Inr None, s')
      | (Inr (Some (JRows rows)), s') \<Rightarrow> (if rows = [] then Inr None else Inr (Some rows), s')
      | (Inr (Some JBad), s') \<Rightarrow> (Inl ParseError, s'))"

definition ticker :: "string \<Rightarrow> string" where
  "ticker symbol = (if CHR ''.'' \<in> set symbol then symbol else symbol @ ''.NS'')"

definition fetch_yfinance ::
  "world \<Rightarrow> string \<Rightarrow> state \<Rightarrow> (error + bar list option) \<times> state" where
  "fetch_yfinance w symbol s =
     (let s' = s\<lparr>yf_calls := Suc (yf_calls s), trace := trace s @ [YfHistory (ticker symbol)]\<rparr>
      in case yf w (yf_calls s) (ticker symbol) of
           Inl e \<Rightarrow> (Inl e, s')
         | Inr None \<Rightarrow> (Inr None, s')
         | Inr (Some df) \<Rightarrow> (if df = [] then Inr None else Inr (Some df), s'))"

definition truthy :: "string option \<Rightarrow> bool" where
  "truthy tok = (case tok of None \<Rightarrow> False | Some t \<Rightarrow> t \<noteq> [])"

definition get_history ::
  "world \<Rightarrow> string \<Rightarrow> string option \<Rightarrow> state \<Rightarrow> (error + bar list option) \<times> state" where
  "get_history w symbol dhan_token s =
     (if truthy dhan_token then
        (case fetch_dhan_candles w symbol s of
           (Inr (Some df), s') \<Rightarrow>
             if df \<noteq> [] then (Inr (Some df), s') else fetch_yfinance w symbol s'
         | (Inr None, s') \<Rightarrow> fetch_yfinance w symbol s'
         | (Inl e, s') \<Rightarrow> fetch_yfinance w symbol s')
      else fetch_yfinance w symbol s)"

section \<open>Ranking the universe\<close>

text \<open>An entry of a horizon's pool: the score with its symbol and horizon.\<close>

record row = hscore +
  sc_symbol :: string
  sc_horizon :: int

text \<open>
  The loop over the horizons for one symbol. An exception ends it; the entries
  appended before stay in \<open>results\<close>. A returned score is a non-empty dictionary, so
  the test \<^verbatim>\<open>if sc\<close> holds for every score that is not \<^verbatim>\<open>None\<close>.
\<close>

fun score_horizons ::
  "ibar list \<Rightarrow> string \<Rightarrow> int list \<Rightarrow> (int \<Rightarrow> row list) \<Rightarrow> error option \<times> (int \<Rightarrow> row list)" where
  "score_horizons df symbol [] results = (None, results)"
| "score_horizons df symbol (h # hs) results =
     (case score_for_horizon (Some df) h of
        Inl e \<Rightarrow> (Some e, results)
      | Inr None \<Rightarrow> score_horizons df symbol hs results
      | Inr (Some sc) \<Rightarrow>
          score_horizons df symbol hs
            (results(h := results h @ [hscore.extend sc (row.fields symbol h)])))"

text \<open>
  The main scan (lines 139 to 152): every exception raised for a symbol is caught and
  the scan goes on with the next symbol.
\<close>

fun scan ::
  "world \<Rightarrow> string option \<Rightarrow> string list \<Rightarrow> (int \<Rightarrow> row list) \<Rightarrow> state
     \<Rightarrow> (int \<Rightarrow> row list) \<times> state" where
  "scan w dhan_token [] results s = (results, s)"
| "scan w dhan_token (symbol # symbols) results s =
     (case get_history w symbol dhan_token s of
        (Inl e, s') \<Rightarrow> scan w dhan_token symbols results s'
      | (Inr None, s') \<Rightarrow> scan w dhan_token symbols results s'
      | (Inr (Some df), s') \<Rightarrow>
          scan w dhan_token symbols
            (snd (score_horizons (compute_indicators df) symbol HORIZONS_MONTHS results)) s')"

definition compute_target ::
  "world \<Rightarrow> string option \<Rightarrow> string \<Rightarrow> state \<Rightarrow> (error + float option) \<times> state" where
  "compute_target w dhan_token symbol s =
     (case get_history w symbol dhan_token s of
        (Inl e, s') \<Rightarrow> (Inl e, s')
      | (Inr None, s') \<Rightarrow> (Inr None, s')
      | (Inr (Some sub), s') \<Rightarrow>
          if sub = [] then (Inr None, s')
          else
            let lst = last (compute_indicators sub) in
            if isna (close lst) then (Inr None, s')
            else (Inr (Some (fmul (close lst) (Num 3))), s'))"

definition compute_stop ::
  "world \<Rightarrow> string option \<Rightarrow> string \<Rightarrow> state \<Rightarrow> (error + float option) \<times> state" where
  "compute_stop w dhan_token symbol s =
     (case get_history w symbol dhan_token s of
        (Inl e, s') \<Rightarrow> (Inl e, s')
      | (Inr None, s') \<Rightarrow> (Inr None, s')
      | (Inr (Some sub), s') \<Rightarrow>
          if sub = [] then (Inr None, s')
          else
            let lst = last (compute_indicators sub) in
            if isna (atr lst) then (Inr None, s')
            else (Inr (Some (fsub (close lst) (fmul (Num 1.5) (atr lst)))), s'))"

definition EPSILON :: real where "EPSILON = 1 / 10 ^ 9"

text \<open>The column \<^verbatim>\<open>prob_est\<close> of a pool that has a row (lines 184 to 188).\<close>

definition prob_est :: "row list \<Rightarrow> float list" where
  "prob_est rows =
     (let mn = series_min (map sc_score rows);
          mx = series_max (map sc_score rows)
      in if flt (fabs (fsub mx mn)) (Num EPSILON) then map (\<lambda>r. Num 0.5) rows
         else map (\<lambda>r. fdiv (fsub (sc_score r) mn) (fsub mx mn)) rows)"



text \<open>Line 189: the pool with its probability estimates, sorted, and its first ten rows.\<close>

definition top10 ::
  "((row \<times> float) list \<Rightarrow> (row \<times> float) list) \<Rightarrow> row list \<Rightarrow> (row \<times> float) list" where
  "top10 srt rows = take 10 (srt (zip rows (prob_est rows)))"

text \<open>
  \<^verbatim>\<open>Series.apply\<close> of a helper over the symbols of the retained rows: in order, each call
  continuing in the state the previous one left; an exception of a call is not caught.
\<close>

fun apply_symbols ::
  "(string \<Rightarrow> state \<Rightarrow> (error + 'a) \<times> state) \<Rightarrow> string list \<Rightarrow> state
     \<Rightarrow> (error + 'a list) \<times> state" where
  "apply_symbols f [] s = (Inr [], s)"
| "apply_symbols f (x # xs) s =
     (case f x s of
        (Inl e, s') \<Rightarrow> (Inl e, s')
      | (Inr v, s') \<Rightarrow>
          (case apply_symbols f xs s' of
             (Inl e, s'') \<Rightarrow> (Inl e, s'')
           | (Inr vs, s'') \<Rightarrow> (Inr (v # vs), s'')))"

text \<open>
  The rationale string of a row is kept as the three values it prints: the return,
  the volatility and \<^verbatim>\<open>int(avg_vol)\<close>. The conversion to \<^verbatim>\<open>int\<close> truncates towards
  zero and raises for a value that is not finite.
\<close>

definition reason :: "row \<Rightarrow> error + (float \<times> float \<times> int)" where
  "reason r =
     (case sc_avg_vol r of
        Num x \<Rightarrow> Inr (sc_return r, sc_volatility r, if 0 \<le> x then \<lfloor>x\<rfloor> else \<lceil>x\<rceil>)
      | NaN \<Rightarrow> Inl ValueError
      | _ \<Rightarrow> Inl OverflowError)"

fun reasons :: "row list \<Rightarrow> error + (float \<times> float \<times> int) list" where
  "reasons [] = Inr []"
| "reasons (r # rs) =
     (case reason r of
        Inl e \<Rightarrow> Inl e
      | Inr v \<Rightarrow> (case reasons rs of Inl e \<Rightarrow> Inl e | Inr vs \<Rightarrow> Inr (v # vs)))"

record ranked =
  rk_symbol :: string
  rk_prob_est :: float
  rk_return :: float
  rk_volatility :: float
  rk_avg_vol :: float
  rk_score :: float
  rk_stop_loss_est :: "float option"
  rk_target_price_est :: "float option"
  rk_reason :: "float \<times> float \<times> int"

definition ranked_row ::
  "(row \<times> float) \<Rightarrow> float option \<times> float option \<times> (float \<times> float \<times> int) \<Rightarrow> ranked" where
  "ranked_row rp e =
     \<lparr>rk_symbol = sc_symbol (fst rp), rk_prob_est = snd rp, rk_return = sc_return (fst rp),
      rk_volatility = sc_volatility (fst rp), rk_avg_vol = sc_avg_vol (fst rp),
      rk_score = sc_score (fst rp), rk_stop_loss_est = fst e,
      rk_target_price_est = fst (snd e), rk_reason = snd (snd e)\<rparr>"

text \<open>
  The body of the loop of lines 178 to 198 for one horizon: the sheet of the horizon,
  empty for an empty pool.
\<close>

definition rank_horizon ::
  "((row \<times> float) list \<Rightarrow> (row \<times> float) list) \<Rightarrow> world \<Rightarrow> string option \<Rightarrow> row list
     \<Rightarrow> state \<Rightarrow> (error + ranked list) \<times> state" where
  "rank_horizon srt w dhan_token rows s =
     (if rows = [] then (Inr [], s)
      else
        let dfh = top10 srt rows;
            symbols = map (\<lambda>rp. sc_symbol (fst rp)) dfh
        in case apply_symbols (compute_stop w dhan_token) symbols s of
             (Inl e, s1) \<Rightarrow> (Inl e, s1)
           | (Inr stops, s1) \<Rightarrow>
               (case apply_symbols (compute_target w dhan_token) symbols s1 of
                  (Inl e, s2) \<Rightarrow> (Inl e, s2)
                | (Inr targets, s2) \<Rightarrow>
                    (case reasons (map fst dfh) of
                       Inl e \<Rightarrow> (Inl e, s2)
                     | Inr rs \<Rightarrow>
                         (Inr (map (\<lambda>(rp, e). ranked_row rp e)
                                 (zip dfh (zip stops (zip targets rs)))), s2))))"

fun rank_all ::
  "((row \<times> float) list \<Rightarrow> (row \<times> float) list) \<Rightarrow> world \<Rightarrow> string option
     \<Rightarrow> (int \<Rightarrow> row list) \<Rightarrow> int list \<Rightarrow> state
     \<Rightarrow> (error + (int \<times> ranked list) list) \<times> state" where
  "rank_all srt w dhan_token results [] s = (Inr [], s)"
| "rank_all srt w dhan_token results (h # hs) s =
     (case rank_horizon srt w dhan_token (results h) s of
        (Inl e, s') \<Rightarrow> (Inl e, s')
      | (Inr sheet, s') \<Rightarrow>
          (case rank_all srt w dhan_token results hs s' of
             (Inl e, s'') \<Rightarrow> (Inl e, s'')
           | (Inr sheets, s'') \<Rightarrow> (Inr ((h, sheet) # sheets), s'')))"

text \<open>
  What \<^verbatim>\<open>analyze_universe\<close> returns and writes: the name of the workbook (its time
  stamp), the sheets of the workbook, one for each horizon, and the counts. Writing
  the workbook is taken to succeed.
\<close>

record report =
  out_file :: int
  sheets :: "(int \<times> ranked list) list"
  counts :: "(int \<times> nat) list"

definition analyze_universe ::
  "((row \<times> float) list \<Rightarrow> (row \<times> float) list) \<Rightarrow> world \<Rightarrow> string list \<Rightarrow> bool \<Rightarrow> bool
     \<Rightarrow> string option \<Rightarrow> real \<Rightarrow> (error + report) \<times> state" where
  "analyze_universe srt w symbols use_dhan use_news news_key min_avg_vol =
     (case (if use_dhan then secret w else Inr None) of
        Inl e \<Rightarrow> (Inl e, state0)
      | Inr dhan_token \<Rightarrow>
          (case scan w dhan_token symbols (\<lambda>h. []) state0 of
             (results, s1) \<Rightarrow>
               (case rank_all srt w dhan_token results HORIZONS_MONTHS s1 of
                  (Inl e, s2) \<Rightarrow> (Inl e, s2)
                | (Inr top_lists, s2) \<Rightarrow>
                    (Inr \<lparr>out_file = clock w, sheets = top_lists,
                          counts = map (\<lambda>h. (h, length (results h))) HORIZONS_MONTHS\<rparr>, s2))))"

section \<open>Reference definitions and concrete inputs\<close>

text \<open>A frame of bars on the given dates, all with the same price and volume.\<close>

definition flat_frame :: "int list \<Rightarrow> float \<Rightarrow> float \<Rightarrow> bar list" where
  "flat_frame ds c v =
     map (\<lambda>d. \<lparr>date = d, opn = c, high = c, low = c, close = c, volume = v\<rparr>) ds"

text \<open>A frame of bars with the given dates and closes (high and low at the close).\<close>

definition close_frame :: "(int \<times> float) list \<Rightarrow> float \<Rightarrow> bar list" where
  "close_frame dcs v =
     map (\<lambda>(d, c). \<lparr>date = d, opn = c, high = c, low = c, close = c, volume = v\<rparr>) dcs"

text \<open>A pool entry with the given symbol and composite score.\<close>

definition pool_row :: "string \<Rightarrow> float \<Rightarrow> row" where
  "pool_row symbol s =
     \<lparr>sc_return = Num 0, sc_volatility = Num 0, sc_avg_vol = Num 50000, sc_score = s,
      sc_symbol = symbol, sc_horizon = 6\<rparr>"

text \<open>A probability estimate that is a number of the interval from 0 to 1.\<close>

fun in_unit :: "float \<Rightarrow> bool" where
  "in_unit (Num p) = (0 \<le> p \<and> p \<le> 1)"
| "in_unit _ = False"

definition spread_pool :: "row list" where
  "spread_pool = [pool_row ''A'' (Num 1), pool_row ''B'' (Num 3), pool_row ''C'' (Num 2)]"

definition level_pool :: "row list" where
  "level_pool = [pool_row ''A'' (Num 2), pool_row ''B'' (Num 2)]"

definition nan_pool :: "row list" where
  "nan_pool = [pool_row ''A'' NaN, pool_row ''B'' (Num 1), pool_row ''C'' (Num 2)]"

text \<open>
  The sort that the specification describes: descending by key, missing keys last,
  rows of equal key in their original order. It is an insertion sort; \<open>ranks_before a b\<close>
  says that key \<open>a\<close> comes strictly before key \<open>b\<close>.
\<close>

definition ranks_before :: "float \<Rightarrow> float \<Rightarrow> bool" where
  "ranks_before a b = (\<not> isna a \<and> (isna b \<or> flt b a))"

fun insort_desc :: "('a \<times> float) \<Rightarrow> ('a \<times> float) list \<Rightarrow> ('a \<times> float) list" where
  "insort_desc x [] = [x]"
| "insort_desc x (y # ys) =
     (if ranks_before (snd y) (snd x) then y # insort_desc x ys else x # y # ys)"

definition sort_values_stable :: "('a \<times> float) list \<Rightarrow> ('a \<times> float) list" where
  "sort_values_stable xs = foldr insort_desc xs []"



text \<open>
  A value of the report that is null: \<^verbatim>\<open>None\<close>, or \<open>NaN\<close>, which pandas treats as a
  missing value (\<^verbatim>\<open>pd.isna\<close>) and writes as an empty cell.
\<close>

definition is_null :: "float option \<Rightarrow> bool" where
  "is_null v = (case v of None \<Rightarrow> True | Some x \<Rightarrow> isna x)"

text \<open>
  Three worlds. In each the primary provider fails every request. The fallback
  provider answers every request with the frame \<open>df\<close> in \<open>steady_world\<close>; in
  \<open>flaky_world\<close> it answers the first request with \<open>df\<close> and fails every later one.
\<close>

definition steady_world :: "bar list \<Rightarrow> world" where
  "steady_world df =
     \<lparr>secret = Inr (Some ''token''), http = (\<lambda>n symbol. Inl HTTPError),
      yf = (\<lambda>n symbol. Inr (Some df)), clock = 0\<rparr>"

definition flaky_world :: "bar list \<Rightarrow> world" where
  "flaky_world df =
     \<lparr>secret = Inr (Some ''token''), http = (\<lambda>n symbol. Inl HTTPError),
      yf = (\<lambda>n symbol. if n = 0 then Inr (Some df) else Inl ProviderError), clock = 0\<rparr>"

text \<open>A frame of bars with the given dates, highs, lows and closes.\<close>

definition hlc_frame :: "(int \<times> float \<times> float \<times> float) list \<Rightarrow> float \<Rightarrow> bar list" where
  "hlc_frame rows v =
     map (\<lambda>(d, h, l, c). \<lparr>date = d, opn = c, high = h, low = l, close = c, volume = v\<rparr>) rows"

section \<open>Facts about the indicator columns\<close>

lemma length_pct_change: "length (pct_change xs) = length xs"
  by (cases xs) (simp_all add: pct_change_def)

lemma length_compute_indicators: "length (compute_indicators df) = length df"
  by (simp add: compute_indicators_def Let_def)

lemma nth_compute_indicators:
  "t < length df \<Longrightarrow> compute_indicators df ! t =
     bar.extend (df ! t)
       (ibar.fields (pct_change (map close df) ! t) (true_range (df ! t))
          (rolling_mean 14 1 (map true_range df) t)
          (fmul (rolling_std 21 1 (pct_change (map close df)) t) (Num (sqrt 252))))"
  by (simp add: compute_indicators_def Let_def)

lemma compute_indicators_columns:
  "map date (compute_indicators df) = map date df"
  "map close (compute_indicators df) = map close df"
  "map volume (compute_indicators df) = map volume df"
  "map ret_1d (compute_indicators df) = pct_change (map close df)"
  by (simp_all add: list_eq_iff_nth_eq length_compute_indicators length_pct_change
      nth_compute_indicators bar.extend_def ibar.fields_def)

lemma compute_indicators_eq_Nil: "compute_indicators df = [] \<longleftrightarrow> df = []"
  using length_compute_indicators [of df] by (metis length_0_conv)

lemma last_compute_indicators:
  "df \<noteq> [] \<Longrightarrow> last (compute_indicators df) = compute_indicators df ! (length df - 1)"
  by (simp add: last_conv_nth compute_indicators_eq_Nil length_compute_indicators)

lemma close_last_compute_indicators:
  "df \<noteq> [] \<Longrightarrow> close (last (compute_indicators df)) = close (last df)"
  by (simp add: last_compute_indicators nth_compute_indicators last_conv_nth
      bar.extend_def ibar.fields_def)

lemma atr_last_compute_indicators:
  "df \<noteq> [] \<Longrightarrow> atr (last (compute_indicators df)) =
     rolling_mean 14 1 (map true_range df) (length df - 1)"
  by (simp add: last_compute_indicators nth_compute_indicators bar.extend_def ibar.fields_def)

section \<open>Facts about the arithmetic\<close>

lemma fsub_NaN: "fsub NaN b = NaN" "fsub a NaN = NaN"
  by (cases a; simp add: fsub_def)+


text \<open>The equations that evaluate the indicators and the score of a concrete frame.\<close>

lemmas frame_defs =
  compute_indicators_def pct_change_def fsub_def recent_rows_def
  window_def rolling_mean_def rolling_std_def true_range_def series_mean_def series_std_def
  dropna_def fsum_def MIN_AVG_VOLUME_def VOL_PENALTY_def LOGVOL_WEIGHT_def
  bar.extend_def ibar.fields_def Let_def mean_def sample_var_def flat_frame_def

section \<open>Scoring: what is insufficient\<close>



text \<open>The liquidity gate, and the fields of a score that is returned.\<close>

lemma score_for_horizon_liquidity_gate:
  assumes "isna (series_mean (map volume (recent_rows df months)))
     \<or> flt (series_mean (map volume (recent_rows df months))) (Num MIN_AVG_VOLUME)"
  shows "score_for_horizon (Some df) months = Inr None"
  using assms by (auto simp: score_for_horizon_def Let_def)

lemma score_for_horizon_fields:
  assumes "score_for_horizon (Some df) months = Inr (Some sc)"
  shows "sc_return sc =
       fsub (fdiv (close (last (recent_rows df months))) (close (hd (recent_rows df months)))) (Num 1)"
    and "sc_volatility sc = fmul (series_std (map ret_1d (recent_rows df months))) (Num (sqrt 252))"
    and "sc_avg_vol sc = series_mean (map volume (recent_rows df months))"
    and "\<exists>l. log1p (sc_avg_vol sc) = Inr l \<and>
           sc_score sc = fadd (fsub (fmul (sc_return sc) (Num 1)) (fmul (sc_volatility sc) (Num 0.5)))
                           (fmul l (Num 0.005))"
    and "10 \<le> length (recent_rows df months)"
  using assms
  by (auto simp: score_for_horizon_def Let_def VOL_PENALTY_def LOGVOL_WEIGHT_def
      split: if_splits sum.splits)

section \<open>Minimum and maximum of a pool\<close>

lemma foldl_fmin_lower:
  "foldl fmin y ys = Num m \<Longrightarrow> \<not> isna y \<Longrightarrow> \<forall>z\<in>set ys. \<not> isna z \<Longrightarrow>
     \<forall>z\<in>set (y # ys). z = PInf \<or> (\<exists>v. z = Num v \<and> m \<le> v)"
proof (induction ys arbitrary: y)
  case Nil
  then show ?case by simp
next
  case (Cons z zs)
  have nz: "\<not> isna z" using Cons.prems by simp
  have nf: "\<not> isna (fmin y z)" using Cons.prems nz by (simp add: fmin_def)
  have ih: "\<forall>u\<in>set (fmin y z # zs). u = PInf \<or> (\<exists>v. u = Num v \<and> m \<le> v)"
    using Cons.IH [of "fmin y z"] Cons.prems nf by simp
  then have f: "fmin y z = PInf \<or> (\<exists>v. fmin y z = Num v \<and> m \<le> v)" by simp
  have "(y = PInf \<or> (\<exists>v. y = Num v \<and> m \<le> v)) \<and> (z = PInf \<or> (\<exists>v. z = Num v \<and> m \<le> v))"
    using f nz Cons.prems(2)
    by (cases y; cases z) (auto simp: fmin_def split: if_splits)
  then show ?case using ih by simp
qed

lemma foldl_fmax_upper:
  "foldl fmax y ys = Num m \<Longrightarrow> \<not> isna y \<Longrightarrow> \<forall>z\<in>set ys. \<not> isna z \<Longrightarrow>
     \<forall>z\<in>set (y # ys). z = NInf \<or> (\<exists>v. z = Num v \<and> v \<le> m)"
proof (induction ys arbitrary: y)
  case Nil
  then show ?case by simp
next
  case (Cons z zs)
  have nz: "\<not> isna z" using Cons.prems by simp
  have nf: "\<not> isna (fmax y z)" using Cons.prems nz by (simp add: fmax_def)
  have ih: "\<forall>u\<in>set (fmax y z # zs). u = NInf \<or> (\<exists>v. u = Num v \<and> v \<le> m)"
    using Cons.IH [of "fmax y z"] Cons.prems nf by simp
  then have f: "fmax y z = NInf \<or> (\<exists>v. fmax y z = Num v \<and> v \<le> m)" by simp
  have "(y = NInf \<or> (\<exists>v. y = Num v \<and> v \<le> m)) \<and> (z = NInf \<or> (\<exists>v. z = Num v \<and> v \<le> m))"
    using f nz Cons.prems(2)
    by (cases y; cases z) (auto simp: fmax_def split: if_splits)
  then show ?case using ih by simp
qed

lemma series_min_lower:
  assumes "series_min xs = Num m" and "x \<in> set xs" and "\<not> isna x"
  shows "x = PInf \<or> (\<exists>v. x = Num v \<and> m \<le> v)"
proof -
  obtain y ys where d: "dropna xs = y # ys" and f: "foldl fmin y ys = Num m"
    using assms(1) by (auto simp: series_min_def split: list.splits)
  have "set (y # ys) = set (dropna xs)" using d by simp
  then have "\<forall>z\<in>set (y # ys). \<not> isna z" by (simp add: dropna_def)
  then have "\<forall>z\<in>set (y # ys). z = PInf \<or> (\<exists>v. z = Num v \<and> m \<le> v)"
    using foldl_fmin_lower [OF f] by simp
  moreover have "x \<in> set (y # ys)" using assms(2,3) d [symmetric] by (simp add: dropna_def)
  ultimately show ?thesis by blast
qed

lemma series_max_upper:
  assumes "series_max xs = Num m" and "x \<in> set xs" and "\<not> isna x"
  shows "x = NInf \<or> (\<exists>v. x = Num v \<and> v \<le> m)"
proof -
  obtain y ys where d: "dropna xs = y # ys" and f: "foldl fmax y ys = Num m"
    using assms(1) by (auto simp: series_max_def split: list.splits)
  have "set (y # ys) = set (dropna xs)" using d by simp
  then have "\<forall>z\<in>set (y # ys). \<not> isna z" by (simp add: dropna_def)
  then have "\<forall>z\<in>set (y # ys). z = NInf \<or> (\<exists>v. z = Num v \<and> v \<le> m)"
    using foldl_fmax_upper [OF f] by simp
  moreover have "x \<in> set (y # ys)" using assms(2,3) d [symmetric] by (simp add: dropna_def)
  ultimately show ?thesis by blast
qed

lemma series_min_max_bounds:
  assumes "series_min xs = Num mn" and "series_max xs = Num mx" and "x \<in> set xs"
  shows "x = NaN \<or> (\<exists>v. x = Num v \<and> mn \<le> v \<and> v \<le> mx)"
  using series_min_lower [OF assms(1,3)] series_max_upper [OF assms(2,3)]
  by (cases x) auto

lemma series_min_max_le:
  assumes "series_min xs = Num mn" and "series_max xs = Num mx"
  shows "mn \<le> mx"
proof -
  obtain y ys where d: "dropna xs = y # ys"
    using assms(1) by (auto simp: series_min_def split: list.splits)
  then have "y \<in> set (dropna xs)" by simp
  then have "y \<in> set xs" "\<not> isna y" by (simp_all add: dropna_def)
  then show ?thesis using series_min_max_bounds [OF assms, of y] by (cases y) auto
qed

lemma EPSILON_pos: "0 < EPSILON"
  by (simp add: EPSILON_def)


lemma prob_est_spread:
  assumes "series_min (map sc_score rows) = Num mn" and "series_max (map sc_score rows) = Num mx"
    and "EPSILON \<le> mx - mn" and "i < length rows"
  shows "prob_est rows ! i = fdiv (fsub (sc_score (rows ! i)) (Num mn)) (Num (mx - mn))"
proof -
  have "\<not> \<bar>mx - mn\<bar> < EPSILON" using assms(3) EPSILON_pos by linarith
  then show ?thesis using assms by (simp add: prob_est_def Let_def fsub_def)
qed

lemma prob_est_flat:
  assumes "series_min (map sc_score rows) = Num mn" and "series_max (map sc_score rows) = Num mx"
    and "mx - mn < EPSILON" and "i < length rows"
  shows "prob_est rows ! i = Num 0.5"
proof -
  have "mn \<le> mx" using series_min_max_le assms(1,2) by blast
  then show ?thesis using assms by (simp add: prob_est_def Let_def fsub_def)
qed

text \<open>The equations that evaluate the probability estimates of a concrete pool.\<close>

lemmas pool_defs = prob_est_def series_min_def series_max_def dropna_def fmin_def fmax_def
  fsub_def EPSILON_def Let_def pool_row_def

section \<open>The reference sorts meet the contract of the library sort\<close>









section \<open>Requests and retries\<close>

lemma attempts_two:
  "attempts w symbol 2 s =
     (case http w (http_calls s) symbol of
        Inr j \<Rightarrow> (Inr (Some j),
                  s\<lparr>http_calls := Suc (http_calls s), trace := trace s @ [HttpGet symbol]\<rparr>)
      | Inl e1 \<Rightarrow>
          (case http w (Suc (http_calls s)) symbol of
             Inr j \<Rightarrow> (Inr (Some j),
                       s\<lparr>http_calls := Suc (Suc (http_calls s)),
                         trace := trace s @ [HttpGet symbol, Sleep 1, HttpGet symbol]\<rparr>)
           | Inl e2 \<Rightarrow> (Inl e2,
                        s\<lparr>http_calls := Suc (Suc (http_calls s)),
                          trace := trace s @ [HttpGet symbol, Sleep 1, HttpGet symbol]\<rparr>)))"
  by (simp add: numeral_2_eq_2 http_get_def sleep_def split: sum.splits)

lemma fetch_dhan_candles_raises:
  "fst (safe_get_json w symbol default_retries s) = Inl e \<Longrightarrow>
     fst (fetch_dhan_candles w symbol s) = Inl e"
  by (cases "safe_get_json w symbol default_retries s")
     (simp add: fetch_dhan_candles_def)

lemma get_history_fallback:
  "truthy tok \<Longrightarrow> fst (fetch_dhan_candles w symbol s) = Inl e \<Longrightarrow>
     get_history w symbol tok s = fetch_yfinance w symbol (snd (fetch_dhan_candles w symbol s))"
  by (cases "fetch_dhan_candles w symbol s") (simp add: get_history_def)

text \<open>Nothing in \<^verbatim>\<open>analyze_universe\<close> reads the parameter \<^verbatim>\<open>min_avg_vol\<close>.\<close>

lemma analyze_universe_min_avg_vol:
  "analyze_universe srt w symbols use_dhan use_news news_key min_avg_vol =
   analyze_universe srt w symbols use_dhan use_news news_key min_avg_vol'"
  by (simp add: analyze_universe_def)

text \<open>The equations that evaluate a run in a concrete world.\<close>

lemmas io_defs = steady_world_def flaky_world_def state0_def fetch_yfinance_def ticker_def
  truthy_def Let_def

lemmas run_defs = analyze_universe_def get_history_def io_defs score_for_horizon_def frame_defs
  HORIZONS_MONTHS_def compute_stop_def compute_target_def rank_horizon_def top10_def
  pool_defs sort_values_stable_def ranks_before_def reason_def ranked_row_def
  hscore.extend_def row.fields_def

section \<open>The claims\<close>

text \<open>
  C1, as amended. Let the minimum \<open>mn\<close> and the maximum \<open>mx\<close> of the composite scores
  of a pool, taken over the scores that are not \<open>NaN\<close>, be finite numbers. If
  \<open>mx - mn\<close> is at least the epsilon, then a candidate whose score \<open>s\<close> is a number has
  the probability estimate \<open>(s - mn) / (mx - mn)\<close>, which lies between 0 and 1, is 1
  for \<open>s = mx\<close> and 0 for \<open>s = mn\<close> and is at most the estimate of every candidate
  with a score \<open>t \<ge> s\<close>; a candidate whose score is \<open>NaN\<close> has the estimate \<open>NaN\<close>.
  If \<open>mx - mn\<close> is below the epsilon, every candidate has the estimate 0.5.
\<close>

theorem prob_est_normalised:
  assumes "series_min (map sc_score rows) = Num mn"
    and "series_max (map sc_score rows) = Num mx"
    and "i < length rows" and "j < length rows"
  shows "(EPSILON \<le> mx - mn \<longrightarrow>
           (case sc_score (rows ! i) of
              Num s \<Rightarrow> prob_est rows ! i = Num ((s - mn) / (mx - mn))
                        \<and> in_unit (prob_est rows ! i)
                        \<and> (s = mx \<longrightarrow> prob_est rows ! i = Num 1)
                        \<and> (s = mn \<longrightarrow> prob_est rows ! i = Num 0)
                        \<and> (\<forall>t. sc_score (rows ! j) = Num t \<and> s \<le> t \<longrightarrow>
                              (\<exists>q. prob_est rows ! j = Num q \<and> (s - mn) / (mx - mn) \<le> q))
            | _ \<Rightarrow> prob_est rows ! i = NaN))
       \<and> (mx - mn < EPSILON \<longrightarrow> prob_est rows ! i = Num 0.5)"
proof (intro conjI impI)
  assume "mx - mn < EPSILON"
  then show "prob_est rows ! i = Num 0.5" using prob_est_flat assms by blast
next
  assume e: "EPSILON \<le> mx - mn"
  then have pos: "0 < mx - mn" using EPSILON_pos by linarith
  have pi: "prob_est rows ! i = fdiv (fsub (sc_score (rows ! i)) (Num mn)) (Num (mx - mn))"
    and pj: "prob_est rows ! j = fdiv (fsub (sc_score (rows ! j)) (Num mn)) (Num (mx - mn))"
    using prob_est_spread assms e by blast+
  have bi: "sc_score (rows ! i) = NaN \<or> (\<exists>v. sc_score (rows ! i) = Num v \<and> mn \<le> v \<and> v \<le> mx)"
    using series_min_max_bounds [OF assms(1,2), of "sc_score (rows ! i)"] assms(3) by simp
  show "case sc_score (rows ! i) of
              Num s \<Rightarrow> prob_est rows ! i = Num ((s - mn) / (mx - mn))
                        \<and> in_unit (prob_est rows ! i)
                        \<and> (s = mx \<longrightarrow> prob_est rows ! i = Num 1)
                        \<and> (s = mn \<longrightarrow> prob_est rows ! i = Num 0)
                        \<and> (\<forall>t. sc_score (rows ! j) = Num t \<and> s \<le> t \<longrightarrow>
                              (\<exists>q. prob_est rows ! j = Num q \<and> (s - mn) / (mx - mn) \<le> q))
            | _ \<Rightarrow> prob_est rows ! i = NaN"
  proof (cases "sc_score (rows ! i)")
    case (Num s)
    then have b: "mn \<le> s" "s \<le> mx" using bi by auto
    have p: "prob_est rows ! i = Num ((s - mn) / (mx - mn))"
      using pi Num pos by (simp add: fsub_def)
    have u: "0 \<le> (s - mn) / (mx - mn)" "(s - mn) / (mx - mn) \<le> 1"
      using b pos by (simp_all add: divide_le_eq)
    have m: "\<And>t. sc_score (rows ! j) = Num t \<Longrightarrow> s \<le> t \<Longrightarrow>
        \<exists>q. prob_est rows ! j = Num q \<and> (s - mn) / (mx - mn) \<le> q"
    proof -
      fix t assume t: "sc_score (rows ! j) = Num t" "s \<le> t"
      have "prob_est rows ! j = Num ((t - mn) / (mx - mn))"
        using pj t pos by (simp add: fsub_def)
      moreover have "(s - mn) / (mx - mn) \<le> (t - mn) / (mx - mn)"
        using t pos by (simp add: divide_right_mono)
      ultimately show "\<exists>q. prob_est rows ! j = Num q \<and> (s - mn) / (mx - mn) \<le> q" by blast
    qed
    show ?thesis using Num p u m pos by auto
  next
    case NaN
    then show ?thesis using pi by (simp add: fsub_def)
  next
    case NInf then show ?thesis using bi by simp
  next
    case PInf then show ?thesis using bi by simp
  qed
qed

text \<open>
  The theorem at the pool with scores 1, 3 and 2 (third candidate, compared with the
  second) and at the pool with scores 2 and 2.
\<close>

theorem prob_est_normalised_witness:
  "prob_est spread_pool ! 2 = Num (1 / 2) \<and> in_unit (prob_est spread_pool ! 2)
   \<and> prob_est level_pool ! 0 = Num 0.5"
proof -
  have a: "series_min (map sc_score spread_pool) = Num 1"
    "series_max (map sc_score spread_pool) = Num 3"
    "2 < length spread_pool" "1 < length spread_pool" "EPSILON \<le> 3 - 1"
    "sc_score (spread_pool ! 2) = Num 2"
    by (simp_all add: spread_pool_def pool_defs)
  have b: "series_min (map sc_score level_pool) = Num 2"
    "series_max (map sc_score level_pool) = Num 2"
    "0 < length level_pool" "(2::real) - 2 < EPSILON"
    by (simp_all add: level_pool_def pool_defs)
  have "prob_est spread_pool ! 2 = Num ((2 - 1) / (3 - 1)) \<and> in_unit (prob_est spread_pool ! 2)"
    using prob_est_normalised [OF a(1,2,3,4)] a(5,6) by simp
  moreover have "prob_est level_pool ! 0 = Num 0.5"
    using prob_est_normalised [OF b(1,2,3,3)] b(4) by blast
  ultimately show ?thesis by simp
qed

text \<open>
  C1 as the specification states it fails at the pool with scores \<open>NaN\<close>, 1 and 2:
  the minimum and the maximum are 1 and 2, they differ by more than the epsilon, and
  the probability estimate of the first candidate is \<open>NaN\<close>, which is not in the
  interval from 0 to 1.
\<close>

theorem prob_est_nan_score:
  "series_min (map sc_score nan_pool) = Num 1
   \<and> series_max (map sc_score nan_pool) = Num 2
   \<and> EPSILON \<le> 2 - 1
   \<and> prob_est nan_pool ! 0 = NaN
   \<and> \<not> in_unit (prob_est nan_pool ! 0)"
  by (simp add: nan_pool_def pool_defs)

text \<open>
  C2 says that a failure for one symbol anywhere in \<^verbatim>\<open>analyze_universe\<close>, the second
  fetch for the stop loss and the target price included, only skips that symbol and
  never ends the run. The code departs from it at this input: the universe is the one
  symbol A; the fallback provider answers the first request with ten daily bars
  (close 100, volume 50000) and fails the second. The main scan scores A for every
  horizon; the second request is the one made by \<^verbatim>\<open>compute_stop\<close> for the first
  horizon, outside any \<^verbatim>\<open>try\<close>, so its exception ends \<^verbatim>\<open>analyze_universe\<close>: no
  report, no counts.
\<close>

theorem refetch_failure_aborts_batch:
  "length (fst (scan (flaky_world (flat_frame [0, 1, 2, 3, 4, 5, 6, 7, 8, 9] (Num 100) (Num 50000)))
      None [''A''] (\<lambda>h. []) state0) 6) = 1
   \<and> analyze_universe sort_values_stable
      (flaky_world (flat_frame [0, 1, 2, 3, 4, 5, 6, 7, 8, 9] (Num 100) (Num 50000)))
      [''A''] False False None 30000 =
     (Inl ProviderError,
      \<lparr>http_calls = 0, yf_calls = 2, trace = [YfHistory ''A.NS'', YfHistory ''A.NS'']\<rparr>)"
  by (simp add: run_defs)

text \<open>
  C3 says that a mean volume that is missing or below the threshold passed to
  \<^verbatim>\<open>analyze_universe\<close> as \<^verbatim>\<open>min_avg_vol\<close> excludes the symbol from the horizon. The
  code departs from it at this input: \<^verbatim>\<open>analyze_universe\<close> is called with
  \<^verbatim>\<open>min_avg_vol = 50000\<close> for the one symbol A, whose ten daily bars have a volume of
  40000 each. The gate of \<^verbatim>\<open>score_for_horizon\<close> compares with the constant
  \<^verbatim>\<open>MIN_AVG_VOLUME = 30000\<close> (\<open>score_for_horizon_liquidity_gate\<close>) and nothing reads
  \<^verbatim>\<open>min_avg_vol\<close> (\<open>analyze_universe_min_avg_vol\<close>), so A is scored and counted for
  every horizon.
\<close>

theorem min_avg_vol_ignored:
  "series_mean (map volume (flat_frame [0, 1, 2, 3, 4, 5, 6, 7, 8, 9] (Num 100) (Num 40000)))
     = Num 40000
   \<and> map_sum id counts (fst (analyze_universe sort_values_stable
        (steady_world (flat_frame [0, 1, 2, 3, 4, 5, 6, 7, 8, 9] (Num 100) (Num 40000)))
        [''A''] False False None 50000))
     = Inr [(6, 1), (12, 1), (18, 1), (24, 1), (48, 1)]"
  by (simp add: run_defs)







text \<open>
  C6. When the second fetch of a retained candidate returns a frame with a row, the
  target price is three times the latest close, and \<^verbatim>\<open>None\<close> when the latest close is
  \<open>NaN\<close>; the stop loss is the latest close less 1.5 times the latest average true
  range (the mean of the true ranges available in the last fourteen bars), and
  \<^verbatim>\<open>None\<close> when that average is \<open>NaN\<close>. With the latest close \<open>NaN\<close> and the average
  defined, the stop loss is the difference with \<open>NaN\<close>, which is \<open>NaN\<close>. So either
  estimate is null whenever an input it needs is \<open>NaN\<close>, and neither computation
  raises there.
\<close>

theorem target_and_stop_estimates:
  assumes "get_history w symbol tok s = (Inr (Some sub), s')" and "sub \<noteq> []"
  shows "compute_target w tok symbol s =
       (Inr (if isna (close (last sub)) then None else Some (fmul (close (last sub)) (Num 3))), s')
   \<and> compute_stop w tok symbol s =
       (Inr (if isna (atr (last (compute_indicators sub))) then None
             else Some (fsub (close (last sub))
                    (fmul (Num 1.5) (atr (last (compute_indicators sub)))))), s')
   \<and> atr (last (compute_indicators sub)) =
       rolling_mean 14 1 (map true_range sub) (length sub - 1)
   \<and> (isna (close (last sub)) \<longrightarrow> is_null (projr (fst (compute_target w tok symbol s))))
   \<and> (isna (close (last sub)) \<or> isna (atr (last (compute_indicators sub))) \<longrightarrow>
        is_null (projr (fst (compute_stop w tok symbol s))))"
proof -
  let ?c = "close (last sub)"
  let ?a = "atr (last (compute_indicators sub))"
  have t: "compute_target w tok symbol s =
       (Inr (if isna ?c then None else Some (fmul ?c (Num 3))), s')"
    using assms by (simp add: compute_target_def Let_def close_last_compute_indicators)
  have p: "compute_stop w tok symbol s =
       (Inr (if isna ?a then None else Some (fsub ?c (fmul (Num 1.5) ?a))), s')"
    using assms by (simp add: compute_stop_def Let_def close_last_compute_indicators)
  have r: "?a = rolling_mean 14 1 (map true_range sub) (length sub - 1)"
    using assms(2) by (rule atr_last_compute_indicators)
  have n1: "isna ?c \<longrightarrow> is_null (projr (fst (compute_target w tok symbol s)))"
    unfolding t by (simp add: is_null_def)
  have "isna ?c \<Longrightarrow> fsub ?c (fmul (Num 1.5) ?a) = NaN"
    by (cases ?c) (simp_all add: fsub_NaN)
  then have n2: "isna ?c \<or> isna ?a \<longrightarrow> is_null (projr (fst (compute_stop w tok symbol s)))"
    unfolding p by (auto simp: is_null_def)
  show ?thesis using t p r n1 n2 by blast
qed

text \<open>
  The theorem at two bars with highs 104 and 112, lows 100 and 108 and closes 102 and
  110 (target 330, average true range 4, stop 104), and at the same bars with the
  latest close missing.
\<close>

theorem target_and_stop_estimates_witness:
  "compute_target (steady_world (hlc_frame [(0, Num 104, Num 100, Num 102), (1, Num 112, Num 108, Num 110)] (Num 50000)))
      None ''A'' state0 =
     (Inr (Some (Num 330)), \<lparr>http_calls = 0, yf_calls = 1, trace = [YfHistory ''A.NS'']\<rparr>)
   \<and> compute_stop (steady_world (hlc_frame [(0, Num 104, Num 100, Num 102), (1, Num 112, Num 108, Num 110)] (Num 50000)))
      None ''A'' state0 =
     (Inr (Some (Num 104)), \<lparr>http_calls = 0, yf_calls = 1, trace = [YfHistory ''A.NS'']\<rparr>)
   \<and> compute_target (steady_world (hlc_frame [(0, Num 104, Num 100, Num 102), (1, Num 112, Num 108, NaN)] (Num 50000)))
      None ''A'' state0 =
     (Inr None, \<lparr>http_calls = 0, yf_calls = 1, trace = [YfHistory ''A.NS'']\<rparr>)
   \<and> is_null (projr (fst (compute_stop (steady_world (hlc_frame [(0, Num 104, Num 100, Num 102), (1, Num 112, Num 108, NaN)] (Num 50000)))
      None ''A'' state0)))"
proof -
  let ?f = "hlc_frame [(0, Num 104, Num 100, Num 102), (1, Num 112, Num 108, Num 110)] (Num 50000)"
  let ?g = "hlc_frame [(0, Num 104, Num 100, Num 102), (1, Num 112, Num 108, NaN)] (Num 50000)"
  let ?s = "\<lparr>http_calls = 0, yf_calls = 1, trace = [YfHistory ''A.NS'']\<rparr>"
  have f: "get_history (steady_world ?f) ''A'' None state0 = (Inr (Some ?f), ?s)" "?f \<noteq> []"
    by (simp_all add: get_history_def io_defs hlc_frame_def)
  have g: "get_history (steady_world ?g) ''A'' None state0 = (Inr (Some ?g), ?s)" "?g \<noteq> []"
    by (simp_all add: get_history_def io_defs hlc_frame_def)
  have vf: "close (last ?f) = Num 110" "rolling_mean 14 1 (map true_range ?f) (length ?f - 1) = Num 4"
    by (simp_all add: hlc_frame_def frame_defs)
  have vg: "isna (close (last ?g))"
    by (simp_all add: hlc_frame_def)
  note F = target_and_stop_estimates [OF f]
  note G = target_and_stop_estimates [OF g]
  have "compute_target (steady_world ?f) None ''A'' state0 = (Inr (Some (Num 330)), ?s)"
    using F vf by simp
  moreover have "compute_stop (steady_world ?f) None ''A'' state0 = (Inr (Some (Num 104)), ?s)"
    using F vf by (simp add: fsub_def)
  moreover have "compute_target (steady_world ?g) None ''A'' state0 = (Inr None, ?s)"
    using G vg by simp
  moreover have "is_null (projr (fst (compute_stop (steady_world ?g) None ''A'' state0)))"
    using G vg by blast
  ultimately show ?thesis by blast
qed

text \<open>
  C7 says that the windowed volatility of a returned score is the standard deviation
  of the recent daily returns times the square root of 252, and 0 when that standard
  deviation is undefined. The code departs from it at this input: for twelve daily
  bars without any close, each with a volume of 100000, no daily return is defined in
  the window of the horizon of twelve months, so the standard deviation is undefined,
  and the returned volatility is \<open>NaN\<close>, not \<open>0\<close>. \<^verbatim>\<open>Series.std()\<close> returns \<open>NaN\<close> and
  never \<^verbatim>\<open>None\<close>, so the fallback \<^verbatim>\<open>else 0.0\<close> is not reached. (The return and the
  composite score of a returned score are as C7 states them, see
  \<open>score_for_horizon_fields\<close>.)
\<close>

theorem volatility_undefined_is_nan:
  "series_std (map ret_1d (recent_rows
      (compute_indicators (flat_frame [0, 1, 2, 3, 4, 5, 6, 7, 8, 9, 10, 11] NaN (Num 100000))) 12)) = NaN
   \<and> score_for_horizon
        (Some (compute_indicators
           (flat_frame [0, 1, 2, 3, 4, 5, 6, 7, 8, 9, 10, 11] NaN (Num 100000)))) 12 =
      Inr (Some \<lparr>sc_return = NaN, sc_volatility = NaN, sc_avg_vol = Num 100000, sc_score = NaN\<rparr>)"
  by (simp add: score_for_horizon_def frame_defs)

text \<open>
  C8, as amended. At every bar \<open>t\<close>, \<^verbatim>\<open>volatility_annual\<close> is computed from the daily
  returns of the bars \<open>t - 20\<close> to \<open>t\<close> (fewer at the start of the series): it is the
  sample standard deviation of the returns available among them, times the square
  root of 252, when at least two are available, and \<open>NaN\<close> otherwise. With exactly
  one return available it is therefore \<open>NaN\<close>.
\<close>

theorem volatility_annual_rolling:
  "t < length df \<Longrightarrow>
     length (window 21 (map ret_1d (compute_indicators df)) t) = min 21 (Suc t) \<and>
     volatility_annual (compute_indicators df ! t) =
       (let v = nums (window 21 (map ret_1d (compute_indicators df)) t) in
        if 2 \<le> length v then Num (sqrt (sample_var v) * sqrt 252) else NaN)"
  by (auto simp: compute_indicators_columns nth_compute_indicators bar.extend_def ibar.fields_def
      rolling_std_def Let_def window_def length_pct_change)

text \<open>The theorem at the third of three bars with closes 100, 110 and 121.\<close>

theorem volatility_annual_rolling_witness:
  "volatility_annual
     (compute_indicators (close_frame [(0, Num 100), (1, Num 110), (2, Num 121)] (Num 50000)) ! 2)
   = Num 0"
  using volatility_annual_rolling [of 2 "close_frame [(0, Num 100), (1, Num 110), (2, Num 121)] (Num 50000)"]
  by (simp add: close_frame_def compute_indicators_columns pct_change_def window_def fsub_def
      sample_var_def mean_def)

text \<open>
  C8 as the specification states it fails at the second of two bars with closes 100
  and 110: the only daily return in the window is \<open>r = 1/10\<close>, and the annualized
  volatility is \<open>NaN\<close>, not \<open>|r|\<close> times the square root of 252.
\<close>

theorem volatility_single_return_nan:
  "nums (window 21
      (map ret_1d (compute_indicators (close_frame [(0, Num 100), (1, Num 110)] (Num 50000)))) 1)
     = [1 / 10]
   \<and> volatility_annual
       (compute_indicators (close_frame [(0, Num 100), (1, Num 110)] (Num 50000)) ! 1) = NaN
   \<and> volatility_annual
       (compute_indicators (close_frame [(0, Num 100), (1, Num 110)] (Num 50000)) ! 1)
     \<noteq> Num (\<bar>1 / 10\<bar> * sqrt 252)"
  by (simp add: close_frame_def frame_defs)

text \<open>
  C9. With the default budget of two attempts, \<^verbatim>\<open>safe_get_json\<close> returns the body of
  the first request if it succeeds, without a pause; otherwise it pauses one second
  and returns the body of the second request if that succeeds; if the second request
  fails too, its error is raised (no empty result is returned) and no further pause
  or request is made. So at most two requests are made. \<^verbatim>\<open>fetch_dhan_candles\<close> passes
  the error on, and \<^verbatim>\<open>get_history\<close> is where it is caught: the history then is what
  the fallback provider returns.
\<close>

theorem safe_get_json_retry_budget:
  "safe_get_json w symbol default_retries s =
     (case http w (http_calls s) symbol of
        Inr j \<Rightarrow> (Inr (Some j),
                  s\<lparr>http_calls := Suc (http_calls s), trace := trace s @ [HttpGet symbol]\<rparr>)
      | Inl e1 \<Rightarrow>
          (case http w (Suc (http_calls s)) symbol of
             Inr j \<Rightarrow> (Inr (Some j),
                       s\<lparr>http_calls := Suc (Suc (http_calls s)),
                         trace := trace s @ [HttpGet symbol, Sleep 1, HttpGet symbol]\<rparr>)
           | Inl e2 \<Rightarrow> (Inl e2,
                        s\<lparr>http_calls := Suc (Suc (http_calls s)),
                          trace := trace s @ [HttpGet symbol, Sleep 1, HttpGet symbol]\<rparr>)))
   \<and> http_calls (snd (safe_get_json w symbol default_retries s)) \<le> http_calls s + 2
   \<and> (fst (safe_get_json w symbol default_retries s) = Inl e \<longrightarrow>
        fst (fetch_dhan_candles w symbol s) = Inl e)
   \<and> (truthy tok \<and> fst (fetch_dhan_candles w symbol s) = Inl e \<longrightarrow>
        get_history w symbol tok s =
          fetch_yfinance w symbol (snd (fetch_dhan_candles w symbol s)))"
proof (intro conjI impI)
  show a: "safe_get_json w symbol default_retries s =
     (case http w (http_calls s) symbol of
        Inr j \<Rightarrow> (Inr (Some j),
                  s\<lparr>http_calls := Suc (http_calls s), trace := trace s @ [HttpGet symbol]\<rparr>)
      | Inl e1 \<Rightarrow>
          (case http w (Suc (http_calls s)) symbol of
             Inr j \<Rightarrow> (Inr (Some j),
                       s\<lparr>http_calls := Suc (Suc (http_calls s)),
                         trace := trace s @ [HttpGet symbol, Sleep 1, HttpGet symbol]\<rparr>)
           | Inl e2 \<Rightarrow> (Inl e2,
                        s\<lparr>http_calls := Suc (Suc (http_calls s)),
                          trace := trace s @ [HttpGet symbol, Sleep 1, HttpGet symbol]\<rparr>)))"
    by (simp add: safe_get_json_def default_retries_def attempts_two)
  show "http_calls (snd (safe_get_json w symbol default_retries s)) \<le> http_calls s + 2"
    unfolding a by (simp split: sum.splits)
next
  assume "fst (safe_get_json w symbol default_retries s) = Inl e"
  then show "fst (fetch_dhan_candles w symbol s) = Inl e" by (rule fetch_dhan_candles_raises)
next
  assume "truthy tok \<and> fst (fetch_dhan_candles w symbol s) = Inl e"
  then show "get_history w symbol tok s =
          fetch_yfinance w symbol (snd (fetch_dhan_candles w symbol s))"
    using get_history_fallback by blast
qed

text \<open>
  The theorem in a world whose primary provider fails both requests: the history of
  the symbol comes from the fallback provider, after two requests and one pause.
\<close>

theorem safe_get_json_retry_budget_witness:
  "get_history (steady_world (flat_frame [0] (Num 100) (Num 50000))) ''A'' (Some ''token'') state0 =
     (Inr (Some (flat_frame [0] (Num 100) (Num 50000))),
      \<lparr>http_calls = 2, yf_calls = 1,
        trace = [HttpGet ''A'', Sleep 1, HttpGet ''A'', YfHistory ''A.NS'']\<rparr>)"
proof -
  let ?w = "steady_world (flat_frame [0] (Num 100) (Num 50000))"
  have t: "truthy (Some ''token'')" by (simp add: truthy_def)
  have a: "safe_get_json ?w ''A'' default_retries state0 =
      (Inl HTTPError, \<lparr>http_calls = 2, yf_calls = 0,
         trace = [HttpGet ''A'', Sleep 1, HttpGet ''A'']\<rparr>)"
    using safe_get_json_retry_budget [of ?w "''A''" state0] by (simp add: steady_world_def state0_def)
  then have b: "fetch_dhan_candles ?w ''A'' state0 =
      (Inl HTTPError, \<lparr>http_calls = 2, yf_calls = 0,
         trace = [HttpGet ''A'', Sleep 1, HttpGet ''A'']\<rparr>)"
    by (simp add: fetch_dhan_candles_def)
  have "get_history ?w ''A'' (Some ''token'') state0 =
      fetch_yfinance ?w ''A'' (snd (fetch_dhan_candles ?w ''A'' state0))"
    using safe_get_json_retry_budget [of ?w "''A''" state0 HTTPError "Some ''token''"] t b by simp
  then show ?thesis unfolding b by (simp add: io_defs flat_frame_def)
qed

text \<open>
  C10. The parameters \<^verbatim>\<open>use_news\<close> and \<^verbatim>\<open>news_key\<close> have no effect: two runs that
  differ in them only, in the same world, return the same report and counts and make
  the same requests. (The pools are built by \<open>scan\<close>, which does not receive them.)
\<close>

theorem news_parameters_noninterference:
  "analyze_universe srt w symbols use_dhan use_news news_key min_avg_vol =
   analyze_universe srt w symbols use_dhan use_news' news_key' min_avg_vol"
  by (simp add: analyze_universe_def)

end
